theory Spec2Isabelle
  imports Complex_Main
begin

section \<open>The vector database service of novelAssist (src/python/chroma_server.py)\<close>

text \<open>
  The service is a FastAPI front end to a Chroma store. Its handlers read and write two
  things: the module-level dictionary \<open>collections\<close> (the cache of opened collection
  handles) and the Chroma client. The client is an external library, so it is a parameter
  of the model: a record of operations over an arbitrary store state, each of which either
  returns or raises. Every handler is a function from the server state to a result and the
  new server state; a raised exception is the \<open>Inl\<close> branch of the result.
\<close>

subsection \<open>Values that cross the interface\<close>

text \<open>
  \<open>Dict[str, Any]\<close>: a JSON object. The handlers only ever test a dictionary for
  emptiness and pass it on. A \<open>float\<close> is carried as a \<open>real\<close>: no handler computes with
  one or compares two.
\<close>

datatype jvalue =
    JNull
  | JBool bool
  | JNum real
  | JStr string
  | JList "jvalue list"
  | JDict "(string \<times> jvalue) list"

type_synonym dict = "(string \<times> jvalue) list"

text \<open>The embedding functions built at startup (lines 110 and 120).\<close>

datatype embedding_function = OpenAIEmbeddingFunction | DefaultEmbeddingFunction

text \<open>A collection handle, as the Chroma client returns it.\<close>

datatype Collection = Collection (coll_name: string) (coll_ef: "embedding_function option")

text \<open>
  The pydantic request models (lines 55-75). Field \<open>x\<close> of a class is written with the
  initials of the class in front, since HOL record fields share one name space and
  \<open>id\<close> and \<open>where\<close> are taken. A field with default \<open>None\<close> is an option.
\<close>

record EmbeddingItem =
  ei_id :: string
  ei_text :: string
  ei_metadata :: dict
  ei_embedding :: "real list option"

record EmbeddingBatchItem =
  eb_ids :: "string list"
  eb_texts :: "string list"
  eb_metadatas :: "dict list option"
  eb_embeddings :: "real list list option"

record QueryItem =
  qi_query_text :: string
  qi_n_results :: int
  qi_where :: "dict option"
  qi_embedding :: "real list option"

record DeleteItem =
  di_ids :: "string list option"
  di_where :: "dict option"

text \<open>
  A \<open>QueryItem\<close> built from a body that gives only the required field: the class
  defaults of lines 69-71 fill the rest.
\<close>

definition QueryItem_defaults :: "string \<Rightarrow> QueryItem" where
  "QueryItem_defaults query_text =
     \<lparr>qi_query_text = query_text, qi_n_results = 5, qi_where = None, qi_embedding = None\<rparr>"

text \<open>
  Python truthiness of an optional list or dictionary, as in \<open>if not item.embedding\<close>:
  \<open>None\<close> and the empty container are both false.
\<close>

fun truthy :: "'a list option \<Rightarrow> bool" where
  "truthy None = False"
| "truthy (Some []) = False"
| "truthy (Some (x # xs)) = True"

text \<open>
  What \<open>collection.query\<close> returns: the keys \<open>ids\<close>, \<open>documents\<close>, \<open>metadatas\<close> and
  \<open>distances\<close> of Chroma's QueryResult, one inner list per query; all but \<open>ids\<close> may be
  \<open>None\<close>, and a stored document or metadata entry may itself be \<open>None\<close>.
\<close>

record QueryResult =
  qr_ids :: "string list list"
  qr_documents :: "string option list list option"
  qr_metadatas :: "dict option list list option"
  qr_distances :: "real list list option"

text \<open>One element of \<open>processed_results\<close> (lines 261-266).\<close>

record result_item =
  r_id :: string
  r_text :: "string option"
  r_metadata :: "dict option"
  r_distance :: "real option"

subsection \<open>Exceptions and responses\<close>

text \<open>
  The messages of the source are Chinese text with the collection name and a length
  spliced in; each is a constructor here, with the spliced values as arguments.
  \<open>Str e\<close> is \<open>str(e)\<close> of a caught exception. \<open>HTTPException\<close> is FastAPI's; like
  every library exception it is a subclass of \<open>Exception\<close>. \<open>Fault\<close> is any exception
  raised inside the Chroma client, with its text.
\<close>

datatype exn =
    HTTPException (status_code: nat) (detail: detail)
  | Fault string
  | IndexError
and detail =
    Ids_texts_length
  | Embeddings_ids_length
  | Ids_or_where_required
  | Str exn

datatype message =
    Embedded string
  | Batch_added nat string
  | Deleted_ids string nat
  | Deleted_where string
  | Deleted_collection string

datatype response =
    Success message
  | Query_success "result_item list" nat

subsection \<open>The Chroma client and the server state\<close>

text \<open>
  The client's operations used by the handlers. \<open>'s\<close> is the state of the persistent
  store. \<open>collection.add\<close> takes ids, embeddings (or none), documents and metadatas;
  \<open>collection.query\<close> takes query embeddings or query texts, \<open>n_results\<close> and \<open>where\<close>
  (or none); \<open>collection.delete\<close> takes ids or \<open>where\<close>.
\<close>

record 's chroma_client =
  client_get_collection ::
    "string \<Rightarrow> embedding_function option \<Rightarrow> 's \<Rightarrow> (exn + Collection) \<times> 's"
  client_create_collection ::
    "string \<Rightarrow> embedding_function option \<Rightarrow> 's \<Rightarrow> (exn + Collection) \<times> 's"
  client_delete_collection :: "string \<Rightarrow> 's \<Rightarrow> (exn + unit) \<times> 's"
  collection_add ::
    "Collection \<Rightarrow> string list \<Rightarrow> real list list option \<Rightarrow> string list \<Rightarrow> dict list
       \<Rightarrow> 's \<Rightarrow> (exn + unit) \<times> 's"
  collection_query ::
    "Collection \<Rightarrow> real list list option \<Rightarrow> string list option \<Rightarrow> int \<Rightarrow> dict option
       \<Rightarrow> 's \<Rightarrow> (exn + QueryResult) \<times> 's"
  collection_delete ::
    "Collection \<Rightarrow> string list option \<Rightarrow> dict option \<Rightarrow> 's \<Rightarrow> (exn + unit) \<times> 's"

text \<open>The calls a handler can issue to the store, with their arguments, and how each ended.\<close>

datatype store_call =
    Get_collection string "embedding_function option"
  | Create_collection string "embedding_function option"
  | Delete_collection string
  | Add Collection "string list" "real list list option" "string list" "dict list"
  | Query Collection "real list list option" "string list option" int "dict option"
  | Delete Collection "string list option" "dict option"

datatype outcome = Returned | Raised

text \<open>
  The server state: the globals \<open>default_ef\<close> and \<open>collections\<close>, the state of the store
  behind \<open>chroma_client\<close>, and a trace of the store calls issued so far. The trace is not
  in the source; it records what the handlers ask of the store, in order.
\<close>

record 's server =
  default_ef :: "embedding_function option"
  collections :: "string \<rightharpoonup> Collection"
  store :: 's
  calls :: "(store_call \<times> outcome) list"

definition issue ::
  "store_call \<Rightarrow> ('s \<Rightarrow> (exn + 'a) \<times> 's) \<Rightarrow> 's server \<Rightarrow> (exn + 'a) \<times> 's server" where
  "issue c f s =
     (case f (store s) of
        (r, st) \<Rightarrow>
          (r, s\<lparr>store := st,
                calls := calls s @ [(c, if isl r then Raised else Returned)]\<rparr>))"

text \<open>\<open>embedding_function or default_ef\<close> (lines 142 and 149).\<close>

definition ef_or ::
  "embedding_function option \<Rightarrow> embedding_function option \<Rightarrow> embedding_function option" where
  "ef_or embedding_function dflt =
     (case embedding_function of Some f \<Rightarrow> Some f | None \<Rightarrow> dflt)"

subsection \<open>\<open>get_collection\<close> (lines 133-153)\<close>

definition get_collection ::
  "'s chroma_client \<Rightarrow> string \<Rightarrow> embedding_function option \<Rightarrow> 's server
     \<Rightarrow> (exn + Collection) \<times> 's server" where
  "get_collection cl collection_name embedding_function s =
     (case collections s collection_name of
        Some c \<Rightarrow> (Inr c, s)
      | None \<Rightarrow>
          (let ef = ef_or embedding_function (default_ef s) in
           case issue (Get_collection collection_name ef)
                  (client_get_collection cl collection_name ef) s of
             (Inr c, s1) \<Rightarrow>
               (Inr c, s1\<lparr>collections := (collections s1)(collection_name \<mapsto> c)\<rparr>)
           | (Inl e, s1) \<Rightarrow>
               (case issue (Create_collection collection_name ef)
                       (client_create_collection cl collection_name ef) s1 of
                  (Inr c, s2) \<Rightarrow>
                    (Inr c, s2\<lparr>collections := (collections s2)(collection_name \<mapsto> c)\<rparr>)
                | (Inl e', s2) \<Rightarrow> (Inl e', s2))))"

subsection \<open>The handlers\<close>

text \<open>
  Every handler body stands in \<open>try: ... except Exception as e: raise
  HTTPException(status_code=500, detail=str(e))\<close>. The clause catches whatever the body
  raises, the body's own \<open>HTTPException\<close> included.
\<close>

definition except_Exception :: "(exn + 'a) \<times> 'st \<Rightarrow> (exn + 'a) \<times> 'st" where
  "except_Exception r =
     (case r of
        (Inl e, s) \<Rightarrow> (Inl (HTTPException 500 (Str e)), s)
      | (Inr v, s) \<Rightarrow> (Inr v, s))"

text \<open>\<open>create_embedding\<close>, POST /embed (lines 166-190).\<close>

definition create_embedding_body ::
  "'s chroma_client \<Rightarrow> EmbeddingItem \<Rightarrow> string \<Rightarrow> 's server \<Rightarrow> (exn + response) \<times> 's server" where
  "create_embedding_body cl item collection_name s =
     (case get_collection cl collection_name None s of
        (Inl e, s1) \<Rightarrow> (Inl e, s1)
      | (Inr collection, s1) \<Rightarrow>
          (let embeddings =
                 (if \<not> truthy (ei_embedding item) then None
                  else Some [the (ei_embedding item)])
           in case issue (Add collection [ei_id item] embeddings [ei_text item] [ei_metadata item])
                     (collection_add cl collection [ei_id item] embeddings [ei_text item]
                        [ei_metadata item]) s1 of
                (Inl e, s2) \<Rightarrow> (Inl e, s2)
              | (Inr u, s2) \<Rightarrow> (Inr (Success (Embedded collection_name)), s2)))"

definition create_embedding ::
  "'s chroma_client \<Rightarrow> EmbeddingItem \<Rightarrow> string \<Rightarrow> 's server \<Rightarrow> (exn + response) \<times> 's server" where
  "create_embedding cl item collection_name s =
     except_Exception (create_embedding_body cl item collection_name s)"

text \<open>\<open>create_embeddings_batch\<close>, POST /embed_batch (lines 192-227).\<close>

definition create_embeddings_batch_body ::
  "'s chroma_client \<Rightarrow> EmbeddingBatchItem \<Rightarrow> string \<Rightarrow> 's server
     \<Rightarrow> (exn + response) \<times> 's server" where
  "create_embeddings_batch_body cl item collection_name s =
     (case get_collection cl collection_name None s of
        (Inl e, s1) \<Rightarrow> (Inl e, s1)
      | (Inr collection, s1) \<Rightarrow>
          if length (eb_ids item) \<noteq> length (eb_texts item) then
            (Inl (HTTPException 400 Ids_texts_length), s1)
          else
            (let metadatas =
                   (if truthy (eb_metadatas item) then the (eb_metadatas item)
                    else replicate (length (eb_ids item)) [])
             in if \<not> truthy (eb_embeddings item) then
                  (case issue (Add collection (eb_ids item) None (eb_texts item) metadatas)
                          (collection_add cl collection (eb_ids item) None (eb_texts item)
                             metadatas) s1 of
                     (Inl e, s2) \<Rightarrow> (Inl e, s2)
                   | (Inr u, s2) \<Rightarrow>
                       (Inr (Success (Batch_added (length (eb_ids item)) collection_name)), s2))
                else if length (the (eb_embeddings item)) \<noteq> length (eb_ids item) then
                  (Inl (HTTPException 400 Embeddings_ids_length), s1)
                else
                  (case issue
                          (Add collection (eb_ids item) (eb_embeddings item) (eb_texts item)
                             metadatas)
                          (collection_add cl collection (eb_ids item) (eb_embeddings item)
                             (eb_texts item) metadatas) s1 of
                     (Inl e, s2) \<Rightarrow> (Inl e, s2)
                   | (Inr u, s2) \<Rightarrow>
                       (Inr (Success (Batch_added (length (eb_ids item)) collection_name)), s2))))"

definition create_embeddings_batch ::
  "'s chroma_client \<Rightarrow> EmbeddingBatchItem \<Rightarrow> string \<Rightarrow> 's server
     \<Rightarrow> (exn + response) \<times> 's server" where
  "create_embeddings_batch cl item collection_name s =
     except_Exception (create_embeddings_batch_body cl item collection_name s)"

text \<open>
  \<open>query_similar\<close>, POST /query (lines 229-276). First the reshaping loop of lines
  257-267. \<open>results["documents"][0][i] if results["documents"] and results["documents"][0]
  else None\<close>: the guard holds when the outer list is there and not empty and its first
  row is not empty; the read of entry \<open>i\<close> raises IndexError beyond the row's end.
\<close>

definition row0 :: "'a list list option \<Rightarrow> 'a list option" where
  "row0 field = (if truthy field then Some (hd (the field)) else None)"

definition entry :: "'a list list option \<Rightarrow> nat \<Rightarrow> exn + 'a option" where
  "entry field i =
     (if truthy field \<and> truthy (row0 field) then
        (if i < length (the (row0 field)) then Inr (Some (the (row0 field) ! i))
         else Inl IndexError)
      else Inr None)"

definition make_item :: "QueryResult \<Rightarrow> nat \<Rightarrow> exn + result_item" where
  "make_item results i =
     (case entry (qr_documents results) i of
        Inl e \<Rightarrow> Inl e
      | Inr text \<Rightarrow>
          (case entry (qr_metadatas results) i of
             Inl e \<Rightarrow> Inl e
           | Inr metadata \<Rightarrow>
               (case entry (qr_distances results) i of
                  Inl e \<Rightarrow> Inl e
                | Inr distance \<Rightarrow>
                    Inr \<lparr>r_id = hd (qr_ids results) ! i,
                         r_text = (case text of None \<Rightarrow> None | Some t \<Rightarrow> t),
                         r_metadata = (case metadata of None \<Rightarrow> Some [] | Some m \<Rightarrow> m),
                         r_distance = distance\<rparr>)))"

fun for_range :: "QueryResult \<Rightarrow> nat list \<Rightarrow> result_item list \<Rightarrow> exn + result_item list" where
  "for_range results [] processed_results = Inr processed_results"
| "for_range results (i # rest) processed_results =
     (case make_item results i of
        Inl e \<Rightarrow> Inl e
      | Inr item \<Rightarrow> for_range results rest (processed_results @ [item]))"

definition process_results :: "QueryResult \<Rightarrow> exn + result_item list" where
  "process_results results =
     (case qr_ids results of
        [] \<Rightarrow> Inl IndexError
      | ids0 # _ \<Rightarrow> for_range results [0..<length ids0] [])"

text \<open>
  Lines 236-242: \<open>query_params\<close> holds \<open>n_results\<close>, and \<open>where\<close> only when
  \<open>query.where\<close> is true; a missing key is \<open>None\<close> here. Lines 245-254: the one call
  to the store.
\<close>

definition query_params :: "QueryItem \<Rightarrow> int \<times> dict option" where
  "query_params query =
     (qi_n_results query, if truthy (qi_where query) then qi_where query else None)"

definition query_store ::
  "'s chroma_client \<Rightarrow> Collection \<Rightarrow> QueryItem \<Rightarrow> 's server \<Rightarrow> (exn + QueryResult) \<times> 's server" where
  "query_store cl collection query s =
     (case query_params query of
        (n_results, where_param) \<Rightarrow>
          if truthy (qi_embedding query) then
            issue (Query collection (Some [the (qi_embedding query)]) None n_results where_param)
              (collection_query cl collection (Some [the (qi_embedding query)]) None n_results
                 where_param) s
          else
            issue (Query collection None (Some [qi_query_text query]) n_results where_param)
              (collection_query cl collection None (Some [qi_query_text query]) n_results
                 where_param) s)"

definition query_similar_body ::
  "'s chroma_client \<Rightarrow> QueryItem \<Rightarrow> string \<Rightarrow> 's server \<Rightarrow> (exn + response) \<times> 's server" where
  "query_similar_body cl query collection_name s =
     (case get_collection cl collection_name None s of
        (Inl e, s1) \<Rightarrow> (Inl e, s1)
      | (Inr collection, s1) \<Rightarrow>
          (case query_store cl collection query s1 of
             (Inl e, s2) \<Rightarrow> (Inl e, s2)
           | (Inr results, s2) \<Rightarrow>
               (case process_results results of
                  Inl e \<Rightarrow> (Inl e, s2)
                | Inr processed_results \<Rightarrow>
                    (Inr (Query_success processed_results (length processed_results)), s2))))"

definition query_similar ::
  "'s chroma_client \<Rightarrow> QueryItem \<Rightarrow> string \<Rightarrow> 's server \<Rightarrow> (exn + response) \<times> 's server" where
  "query_similar cl query collection_name s =
     except_Exception (query_similar_body cl query collection_name s)"

text \<open>\<open>delete_embeddings\<close>, POST /delete (lines 278-298).\<close>

definition delete_embeddings_body ::
  "'s chroma_client \<Rightarrow> DeleteItem \<Rightarrow> string \<Rightarrow> 's server \<Rightarrow> (exn + response) \<times> 's server" where
  "delete_embeddings_body cl delete_item collection_name s =
     (case get_collection cl collection_name None s of
        (Inl e, s1) \<Rightarrow> (Inl e, s1)
      | (Inr collection, s1) \<Rightarrow>
          if truthy (di_ids delete_item) then
            (case issue (Delete collection (di_ids delete_item) None)
                    (collection_delete cl collection (di_ids delete_item) None) s1 of
               (Inl e, s2) \<Rightarrow> (Inl e, s2)
             | (Inr u, s2) \<Rightarrow>
                 (Inr (Success (Deleted_ids collection_name (length (the (di_ids delete_item))))),
                  s2))
          else if truthy (di_where delete_item) then
            (case issue (Delete collection None (di_where delete_item))
                    (collection_delete cl collection None (di_where delete_item)) s1 of
               (Inl e, s2) \<Rightarrow> (Inl e, s2)
             | (Inr u, s2) \<Rightarrow> (Inr (Success (Deleted_where collection_name)), s2))
          else (Inl (HTTPException 400 Ids_or_where_required), s1))"

definition delete_embeddings ::
  "'s chroma_client \<Rightarrow> DeleteItem \<Rightarrow> string \<Rightarrow> 's server \<Rightarrow> (exn + response) \<times> 's server" where
  "delete_embeddings cl delete_item collection_name s =
     except_Exception (delete_embeddings_body cl delete_item collection_name s)"

text \<open>\<open>delete_collection\<close>, DELETE /collection/{collection_name} (lines 300-315).\<close>

definition delete_collection_body ::
  "'s chroma_client \<Rightarrow> string \<Rightarrow> 's server \<Rightarrow> (exn + response) \<times> 's server" where
  "delete_collection_body cl collection_name s =
     (case issue (Delete_collection collection_name)
             (client_delete_collection cl collection_name) s of
        (Inl e, s1) \<Rightarrow> (Inl e, s1)
      | (Inr u, s1) \<Rightarrow>
          (Inr (Success (Deleted_collection collection_name)),
           if collection_name \<in> dom (collections s1)
           then s1\<lparr>collections := (collections s1)(collection_name := None)\<rparr>
           else s1))"

definition delete_collection ::
  "'s chroma_client \<Rightarrow> string \<Rightarrow> 's server \<Rightarrow> (exn + response) \<times> 's server" where
  "delete_collection cl collection_name s =
     except_Exception (delete_collection_body cl collection_name s)"

subsection \<open>Reading the trace\<close>

text \<open>A trace entry that created the collection \<open>name\<close>: a \<open>create_collection\<close> that returned.\<close>

fun is_creation :: "string \<Rightarrow> store_call \<times> outcome \<Rightarrow> bool" where
  "is_creation name (Create_collection n ef, Returned) = (n = name)"
| "is_creation name other = False"

definition creations :: "string \<Rightarrow> (store_call \<times> outcome) list \<Rightarrow> nat" where
  "creations name trace = length (filter (is_creation name) trace)"

text \<open>A trace entry that writes or removes records: \<open>collection.add\<close> or \<open>collection.delete\<close>.\<close>

fun is_record_write :: "store_call \<times> outcome \<Rightarrow> bool" where
  "is_record_write (Add c ids embeddings documents metadatas, out) = True"
| "is_record_write (Delete c ids w, out) = True"
| "is_record_write other = False"

subsection \<open>Reading a query response\<close>

text \<open>
  The words of the specification about a response of the store. A field is absent when
  its key holds \<open>None\<close>, an empty list, or a first row with no entry. The response is
  index-parallel when it has a row of ids and every field that is not absent has, in its
  first row, an entry for each of these ids.
\<close>

fun absent :: "'a list list option \<Rightarrow> bool" where
  "absent None = True"
| "absent (Some []) = True"
| "absent (Some (row # rows)) = (row = [])"

fun first_row :: "'a list list option \<Rightarrow> 'a list" where
  "first_row (Some (row # rows)) = row"
| "first_row other = []"

definition covers :: "'b list \<Rightarrow> 'a list list option \<Rightarrow> bool" where
  "covers ids0 field = (absent field \<or> length ids0 \<le> length (first_row field))"

definition index_parallel :: "QueryResult \<Rightarrow> bool" where
  "index_parallel results =
     (case qr_ids results of
        [] \<Rightarrow> False
      | ids0 # rest \<Rightarrow>
          covers ids0 (qr_documents results) \<and> covers ids0 (qr_metadatas results)
            \<and> covers ids0 (qr_distances results))"

text \<open>
  The item the specification describes for position \<open>i\<close> of a response: the id at \<open>i\<close>
  with the entries at \<open>i\<close> of the fields that are there, \<open>None\<close> for an absent text or
  distance and the empty mapping for absent metadata.
\<close>

definition reshaped :: "QueryResult \<Rightarrow> nat \<Rightarrow> result_item" where
  "reshaped results i =
     \<lparr>r_id = hd (qr_ids results) ! i,
      r_text = (if absent (qr_documents results) then None
                else first_row (qr_documents results) ! i),
      r_metadata = (if absent (qr_metadatas results) then Some []
                    else first_row (qr_metadatas results) ! i),
      r_distance = (if absent (qr_distances results) then None
                    else Some (first_row (qr_distances results) ! i))\<rparr>"

subsection \<open>A small store for concrete runs\<close>

text \<open>
  An in-memory stand-in for the Chroma client, used to run the handlers on concrete
  requests: collections by name, each a list of records (id, document, metadata).
  Opening a missing collection, creating an existing one, dropping a missing one and
  adding parallel lists of different lengths raise, as in Chroma; a query returns the
  response it is given.
\<close>

type_synonym mem_store = "(string \<times> (string \<times> string \<times> dict) list) list"

definition mem_get :: "string \<Rightarrow> embedding_function option \<Rightarrow> mem_store \<Rightarrow> (exn + Collection) \<times> mem_store" where
  "mem_get name ef st =
     (case map_of st name of
        None \<Rightarrow> (Inl (Fault ''collection does not exist''), st)
      | Some rs \<Rightarrow> (Inr (Collection name ef), st))"

definition mem_create :: "string \<Rightarrow> embedding_function option \<Rightarrow> mem_store \<Rightarrow> (exn + Collection) \<times> mem_store" where
  "mem_create name ef st =
     (case map_of st name of
        None \<Rightarrow> (Inr (Collection name ef), st @ [(name, [])])
      | Some rs \<Rightarrow> (Inl (Fault ''collection already exists''), st))"

definition mem_drop :: "string \<Rightarrow> mem_store \<Rightarrow> (exn + unit) \<times> mem_store" where
  "mem_drop name st =
     (case map_of st name of
        None \<Rightarrow> (Inl (Fault ''collection does not exist''), st)
      | Some rs \<Rightarrow> (Inr (), filter (\<lambda>(n, rs). n \<noteq> name) st))"

definition mem_add ::
  "Collection \<Rightarrow> string list \<Rightarrow> real list list option \<Rightarrow> string list \<Rightarrow> dict list
     \<Rightarrow> mem_store \<Rightarrow> (exn + unit) \<times> mem_store" where
  "mem_add c ids embeddings documents metadatas st =
     (if length documents = length ids \<and> length metadatas = length ids
           \<and> (case embeddings of None \<Rightarrow> True | Some es \<Rightarrow> length es = length ids)
      then (Inr (),
            map (\<lambda>(n, rs). if n = coll_name c then (n, rs @ zip ids (zip documents metadatas))
                            else (n, rs)) st)
      else (Inl (Fault ''unequal lengths''), st))"

definition mem_delete ::
  "Collection \<Rightarrow> string list option \<Rightarrow> dict option \<Rightarrow> mem_store \<Rightarrow> (exn + unit) \<times> mem_store" where
  "mem_delete c ids w st =
     (case ids of
        None \<Rightarrow> (Inr (), st)
      | Some is \<Rightarrow>
          (Inr (),
           map (\<lambda>(n, rs). if n = coll_name c then (n, filter (\<lambda>(i, r). i \<notin> set is) rs)
                           else (n, rs)) st))"

definition mem_client :: "QueryResult \<Rightarrow> mem_store chroma_client" where
  "mem_client canned =
     \<lparr>client_get_collection = mem_get,
      client_create_collection = mem_create,
      client_delete_collection = mem_drop,
      collection_add = mem_add,
      collection_query = (\<lambda>c query_embeddings query_texts n_results w st. (Inr canned, st)),
      collection_delete = mem_delete\<rparr>"

definition no_results :: QueryResult where
  "no_results = \<lparr>qr_ids = [[]], qr_documents = None, qr_metadatas = None, qr_distances = None\<rparr>"

text \<open>The server after startup, on an empty store; and after \<open>default\<close> has been resolved once.\<close>

definition started :: "mem_store server" where
  "started =
     \<lparr>default_ef = Some DefaultEmbeddingFunction, collections = Map.empty, store = [],
      calls = []\<rparr>"

definition default_coll :: Collection where
  "default_coll = Collection ''default'' (Some DefaultEmbeddingFunction)"

definition resolved :: "mem_store server" where
  "resolved =
     \<lparr>default_ef = Some DefaultEmbeddingFunction,
      collections = [''default'' \<mapsto> default_coll],
      store = [(''default'', [])],
      calls = [(Get_collection ''default'' (Some DefaultEmbeddingFunction), Raised),
               (Create_collection ''default'' (Some DefaultEmbeddingFunction), Returned)]\<rparr>"

text \<open>The same server with two records in \<open>default\<close>.\<close>

definition stocked :: "mem_store server" where
  "stocked = resolved\<lparr>store := [(''default'', [(''a'', ''x'', []), (''c'', ''z'', [])])]\<rparr>"

text \<open>A store that is down: every operation raises.\<close>

definition down_client :: "mem_store chroma_client" where
  "down_client =
     \<lparr>client_get_collection = (\<lambda>name ef st. (Inl (Fault ''unavailable''), st)),
      client_create_collection = (\<lambda>name ef st. (Inl (Fault ''unavailable''), st)),
      client_delete_collection = (\<lambda>name st. (Inl (Fault ''unavailable''), st)),
      collection_add =
        (\<lambda>c ids embeddings documents metadatas st. (Inl (Fault ''unavailable''), st)),
      collection_query =
        (\<lambda>c query_embeddings query_texts n_results w st. (Inl (Fault ''unavailable''), st)),
      collection_delete = (\<lambda>c ids w st. (Inl (Fault ''unavailable''), st))\<rparr>"

definition unresolved :: "mem_store server" where
  "unresolved =
     started\<lparr>calls := [(Get_collection ''default'' (Some DefaultEmbeddingFunction), Raised),
                        (Create_collection ''default'' (Some DefaultEmbeddingFunction), Raised)]\<rparr>"

text \<open>Requests for the concrete runs.\<close>

definition short_texts :: EmbeddingBatchItem where
  "short_texts =
     \<lparr>eb_ids = [''a'', ''b''], eb_texts = [''x''], eb_metadatas = None, eb_embeddings = None\<rparr>"

definition short_embeddings :: EmbeddingBatchItem where
  "short_embeddings =
     \<lparr>eb_ids = [''a'', ''b''], eb_texts = [''x'', ''y''], eb_metadatas = None,
      eb_embeddings = Some [[1, 2]]\<rparr>"

definition short_metadatas :: EmbeddingBatchItem where
  "short_metadatas =
     \<lparr>eb_ids = [''a'', ''b''], eb_texts = [''x'', ''y''],
      eb_metadatas = Some [[(''k'', JStr ''v'')]], eb_embeddings = None\<rparr>"

definition no_selection :: DeleteItem where
  "no_selection = \<lparr>di_ids = None, di_where = None\<rparr>"

definition empty_where :: DeleteItem where
  "empty_where = \<lparr>di_ids = None, di_where = Some []\<rparr>"

definition ids_and_where :: DeleteItem where
  "ids_and_where = \<lparr>di_ids = Some [''a'', ''b''], di_where = Some [(''k'', JStr ''v'')]\<rparr>"

definition where_only :: DeleteItem where
  "where_only = \<lparr>di_ids = Some [], di_where = Some [(''k'', JStr ''v'')]\<rparr>"

definition empty_vector_query :: QueryItem where
  "empty_vector_query = (QueryItem_defaults ''q'')\<lparr>qi_embedding := Some []\<rparr>"

definition vector_query :: QueryItem where
  "vector_query =
     \<lparr>qi_query_text = ''q'', qi_n_results = 3, qi_where = Some [(''k'', JStr ''v'')],
      qi_embedding = Some [1, 2]\<rparr>"

definition record_a :: EmbeddingItem where
  "record_a =
     \<lparr>ei_id = ''a'', ei_text = ''x'', ei_metadata = [(''k'', JStr ''v'')],
      ei_embedding = Some []\<rparr>"

definition two_results :: QueryResult where
  "two_results =
     \<lparr>qr_ids = [[''a'', ''b'']],
      qr_documents = Some [[Some ''x'', Some ''y'']],
      qr_metadatas = None,
      qr_distances = Some [[0, 1]]\<rparr>"

section \<open>Properties\<close>

subsection \<open>Unfolding the model\<close>

lemmas mem_defs = mem_client_def mem_get_def mem_create_def mem_drop_def mem_add_def mem_delete_def
  started_def resolved_def default_coll_def

lemmas run_defs = get_collection_def issue_def ef_or_def Let_def mem_defs

lemmas embed_defs = create_embedding_def create_embedding_body_def except_Exception_def

lemmas batch_defs = create_embeddings_batch_def create_embeddings_batch_body_def
  except_Exception_def

lemmas query_defs = query_similar_def query_similar_body_def query_store_def query_params_def
  except_Exception_def

lemmas delete_defs = delete_embeddings_def delete_embeddings_body_def except_Exception_def

subsection \<open>The collection cache\<close>

lemma resolve_started:
  "get_collection (mem_client canned) ''default'' None started = (Inr default_coll, resolved)"
  by (simp add: get_collection_def issue_def mem_defs ef_or_def Let_def)

lemma get_collection_hit:
  "collections s name = Some c \<Longrightarrow> get_collection cl name ef s = (Inr c, s)"
  by (simp add: get_collection_def)

lemma get_collection_Inr:
  "get_collection cl name ef s = (Inr c, s1) \<Longrightarrow> collections s1 name = Some c"
  by (auto simp: get_collection_def issue_def Let_def split: option.splits prod.splits sum.splits)

lemma get_collection_creations:
  "get_collection cl name ef s = (r, s1) \<Longrightarrow>
     creations name (calls s1) \<le> creations name (calls s) + (if isl r then 0 else 1)"
  by (auto simp: get_collection_def issue_def Let_def creations_def
      split: option.splits prod.splits sum.splits)

lemma get_collection_no_record_write:
  "filter is_record_write (calls (snd (get_collection cl name ef s))) =
     filter is_record_write (calls s)"
  by (auto simp: get_collection_def issue_def Let_def split: option.splits prod.splits sum.splits)

text \<open>
  C4. Resolution is idempotent per name. Once \<open>collections\<close> holds a handle for a name,
  \<open>get_collection\<close> returns that handle and leaves the whole server state as it was, the
  store and the trace of store calls included, whatever embedding function is passed.
  A resolution that returns a handle leaves it in the cache, so the next resolution of
  the name is such a hit. Over any two resolutions in sequence at most one
  \<open>create_collection\<close> for the name returns.
\<close>

theorem resolve_idempotent:
  "(collections s name = Some c \<longrightarrow> get_collection cl name ef s = (Inr c, s)) \<and>
   (get_collection cl name ef s = (Inr c, s1) \<longrightarrow>
      collections s1 name = Some c \<and> get_collection cl name ef' s1 = (Inr c, s1)) \<and>
   creations name (calls (snd (get_collection cl name ef' (snd (get_collection cl name ef s)))))
     \<le> Suc (creations name (calls s))"
proof (intro conjI impI)
  assume "collections s name = Some c"
  then show "get_collection cl name ef s = (Inr c, s)" by (rule get_collection_hit)
next
  assume "get_collection cl name ef s = (Inr c, s1)"
  then show "collections s1 name = Some c" by (rule get_collection_Inr)
next
  assume "get_collection cl name ef s = (Inr c, s1)"
  then have "collections s1 name = Some c" by (rule get_collection_Inr)
  then show "get_collection cl name ef' s1 = (Inr c, s1)" by (rule get_collection_hit)
next
  obtain r1 s1 where first: "get_collection cl name ef s = (r1, s1)"
    by (cases "get_collection cl name ef s")
  obtain r2 s2 where second: "get_collection cl name ef' s1 = (r2, s2)"
    by (cases "get_collection cl name ef' s1")
  show "creations name (calls (snd (get_collection cl name ef' (snd (get_collection cl name ef s)))))
     \<le> Suc (creations name (calls s))"
  proof (cases r1)
    case (Inl e)
    with get_collection_creations [OF first]
    have "creations name (calls s1) \<le> creations name (calls s)" by simp
    moreover from get_collection_creations [OF second]
    have "creations name (calls s2) \<le> creations name (calls s1) + 1"
      by (simp split: if_splits)
    ultimately show ?thesis using first second by simp
  next
    case (Inr c1)
    with first have "collections s1 name = Some c1" by (simp add: get_collection_Inr)
    then have "get_collection cl name ef' s1 = (Inr c1, s1)" by (rule get_collection_hit)
    with second have "s2 = s1" by simp
    moreover from get_collection_creations [OF first] Inr
    have "creations name (calls s1) \<le> creations name (calls s) + 1" by simp
    ultimately show ?thesis using first second by simp
  qed
qed

theorem resolve_idempotent_witness:
  "collections resolved ''default'' = Some default_coll \<and>
   get_collection (mem_client no_results) ''default'' (Some OpenAIEmbeddingFunction) resolved =
     (Inr default_coll, resolved) \<and>
   get_collection (mem_client no_results) ''default'' None started = (Inr default_coll, resolved) \<and>
   creations ''default''
     (calls (snd (get_collection (mem_client no_results) ''default'' (Some OpenAIEmbeddingFunction)
        (snd (get_collection (mem_client no_results) ''default'' None started))))) \<le> 1"
proof -
  have cached: "collections resolved ''default'' = Some default_coll"
    by (simp add: resolved_def)
  have first: "get_collection (mem_client no_results) ''default'' None started =
      (Inr default_coll, resolved)"
    by (simp add: get_collection_def issue_def mem_defs ef_or_def Let_def)
  have none: "creations ''default'' (calls started) = 0"
    by (simp add: creations_def started_def)
  note hit = resolve_idempotent [of resolved "''default''" default_coll "mem_client no_results"
      "Some OpenAIEmbeddingFunction" resolved "Some OpenAIEmbeddingFunction"]
  note twice = resolve_idempotent [of started "''default''" default_coll "mem_client no_results"
      None resolved "Some OpenAIEmbeddingFunction"]
  from hit cached
  have again: "get_collection (mem_client no_results) ''default'' (Some OpenAIEmbeddingFunction)
      resolved = (Inr default_coll, resolved)"
    by blast
  from twice none
  have "creations ''default''
     (calls (snd (get_collection (mem_client no_results) ''default'' (Some OpenAIEmbeddingFunction)
        (snd (get_collection (mem_client no_results) ''default'' None started))))) \<le> 1"
    by simp
  with cached first again show ?thesis by blast
qed

text \<open>
  C8. Dropping a collection is fail-safe for the cache. When the store's
  \<open>delete_collection\<close> returns, the handler succeeds and the cache has no entry for the
  name; when it raises, the handler answers 500 with the text of the exception and the
  cache is as it was. Entries for other names stay in both cases.
\<close>

theorem drop_fail_safe:
  "(case client_delete_collection cl name (store s) of
      (Inr u, st) \<Rightarrow>
        fst (delete_collection cl name s) = Inr (Success (Deleted_collection name)) \<and>
        collections (snd (delete_collection cl name s)) = (collections s)(name := None)
    | (Inl e, st) \<Rightarrow>
        fst (delete_collection cl name s) = Inl (HTTPException 500 (Str e)) \<and>
        collections (snd (delete_collection cl name s)) = collections s) \<and>
   (\<forall>other. other \<noteq> name \<longrightarrow>
      collections (snd (delete_collection cl name s)) other = collections s other)"
  by (auto simp: delete_collection_def delete_collection_body_def except_Exception_def issue_def
      split: prod.splits sum.splits)

theorem drop_fail_safe_witness:
  "fst (delete_collection (mem_client no_results) ''default'' resolved) =
     Inr (Success (Deleted_collection ''default'')) \<and>
   collections (snd (delete_collection (mem_client no_results) ''default'' resolved)) ''default'' =
     None \<and>
   fst (delete_collection (mem_client no_results) ''x'' resolved) =
     Inl (HTTPException 500 (Str (Fault ''collection does not exist''))) \<and>
   collections (snd (delete_collection (mem_client no_results) ''x'' resolved)) =
     collections resolved \<and>
   collections (snd (delete_collection (mem_client no_results) ''x'' resolved)) ''default'' =
     Some default_coll"
proof -
  have ok: "client_delete_collection (mem_client no_results) ''default'' (store resolved) =
      (Inr (), [])"
    by (simp add: mem_client_def mem_drop_def resolved_def)
  have bad: "client_delete_collection (mem_client no_results) ''x'' (store resolved) =
      (Inl (Fault ''collection does not exist''), store resolved)"
    by (simp add: mem_client_def mem_drop_def resolved_def)
  have cached: "collections resolved ''default'' = Some default_coll"
    by (simp add: resolved_def)
  from drop_fail_safe [of "mem_client no_results" "''default''" resolved] ok
  have a: "fst (delete_collection (mem_client no_results) ''default'' resolved) =
       Inr (Success (Deleted_collection ''default''))"
    "collections (snd (delete_collection (mem_client no_results) ''default'' resolved)) ''default''
       = None"
    by simp_all
  from drop_fail_safe [of "mem_client no_results" "''x''" resolved] bad
  have b: "fst (delete_collection (mem_client no_results) ''x'' resolved) =
       Inl (HTTPException 500 (Str (Fault ''collection does not exist'')))"
    "collections (snd (delete_collection (mem_client no_results) ''x'' resolved)) =
       collections resolved"
    by simp_all
  from drop_fail_safe [of "mem_client no_results" "''x''" resolved] cached
  have c: "collections (snd (delete_collection (mem_client no_results) ''x'' resolved)) ''default''
       = Some default_coll"
    by simp
  from a b c show ?thesis by blast
qed

subsection \<open>Batch ingestion\<close>

text \<open>
  C1 as stated fails. On a server that has not yet opened \<open>default\<close>, a batch with two
  ids and one text is rejected only after \<open>get_collection\<close> has run: the store was asked
  to open the collection and then to create it, and holds a collection it did not hold
  before.
\<close>

theorem batch_length_mismatch_counterexample:
  "length (eb_ids short_texts) \<noteq> length (eb_texts short_texts) \<and>
   store started = [] \<and> calls started = [] \<and>
   store (snd (create_embeddings_batch (mem_client no_results) short_texts ''default'' started)) =
     [(''default'', [])] \<and>
   calls (snd (create_embeddings_batch (mem_client no_results) short_texts ''default'' started)) =
     [(Get_collection ''default'' (Some DefaultEmbeddingFunction), Raised),
      (Create_collection ''default'' (Some DefaultEmbeddingFunction), Returned)]"
  by (simp add: batch_defs run_defs short_texts_def)

text \<open>
  C1, amended. A batch whose ids and texts differ in length fails, and writes no record:
  the length check runs after the resolution of the target collection, so the server state
  after the failure is the state that resolution alone leaves, and the trace holds no
  \<open>add\<close> or \<open>delete\<close> beyond those it held before.
\<close>

theorem batch_length_mismatch:
  assumes "length (eb_ids item) \<noteq> length (eb_texts item)"
  shows "isl (fst (create_embeddings_batch cl item name s)) \<and>
         snd (create_embeddings_batch cl item name s) = snd (get_collection cl name None s) \<and>
         filter is_record_write (calls (snd (create_embeddings_batch cl item name s))) =
           filter is_record_write (calls s)"
proof -
  obtain r s1 where res: "get_collection cl name None s = (r, s1)"
    by (cases "get_collection cl name None s")
  from assms res
  have fails: "isl (fst (create_embeddings_batch cl item name s))"
    and state: "snd (create_embeddings_batch cl item name s) = s1"
    by (cases r; simp add: create_embeddings_batch_def create_embeddings_batch_body_def
        except_Exception_def)+
  from get_collection_no_record_write [of cl name None s] res
  have "filter is_record_write (calls s1) = filter is_record_write (calls s)" by simp
  with fails state res show ?thesis by simp
qed

theorem batch_length_mismatch_witness:
  "length (eb_ids short_texts) \<noteq> length (eb_texts short_texts) \<and>
   isl (fst (create_embeddings_batch (mem_client no_results) short_texts ''default'' started)) \<and>
   snd (create_embeddings_batch (mem_client no_results) short_texts ''default'' started) = resolved \<and>
   filter is_record_write
     (calls (snd (create_embeddings_batch (mem_client no_results) short_texts ''default'' started))) = []"
proof -
  have len: "length (eb_ids short_texts) \<noteq> length (eb_texts short_texts)"
    by (simp add: short_texts_def)
  have none: "calls started = []" by (simp add: started_def)
  note t = batch_length_mismatch [OF len, of "mem_client no_results" "''default''" started]
  from t [THEN conjunct1]
  have fails:
    "isl (fst (create_embeddings_batch (mem_client no_results) short_texts ''default'' started))" .
  from t [THEN conjunct2, THEN conjunct1] resolve_started [of no_results]
  have state:
    "snd (create_embeddings_batch (mem_client no_results) short_texts ''default'' started) =
       resolved"
    by simp
  from t [THEN conjunct2, THEN conjunct2] none
  have "filter is_record_write
     (calls (snd (create_embeddings_batch (mem_client no_results) short_texts ''default''
        started))) = []"
    by simp
  with len fails state show ?thesis by blast
qed

text \<open>
  C2. A validation failure should reach the caller as a 4xx. The three validation
  failures of the handlers are each raised as \<open>HTTPException 400\<close> inside the \<open>try\<close> and
  caught by its \<open>except Exception\<close> clause, which raises \<open>HTTPException 500\<close> in its
  place: the caller gets a 500 whose detail is the text of the 400.
\<close>

theorem validation_errors_reported_500:
  "fst (create_embeddings_batch (mem_client no_results) short_texts ''default'' resolved) =
     Inl (HTTPException 500 (Str (HTTPException 400 Ids_texts_length))) \<and>
   fst (create_embeddings_batch (mem_client no_results) short_embeddings ''default'' resolved) =
     Inl (HTTPException 500 (Str (HTTPException 400 Embeddings_ids_length))) \<and>
   fst (delete_embeddings (mem_client no_results) no_selection ''default'' resolved) =
     Inl (HTTPException 500 (Str (HTTPException 400 Ids_or_where_required)))"
  by (simp add: batch_defs delete_defs get_collection_def resolved_def short_texts_def short_embeddings_def
      no_selection_def)

text \<open>
  C3. A batch whose metadatas are there but differ in length from the ids should fail
  validation before any store call. The handler does not compare the two lengths: with
  two ids, two texts and one metadata mapping it hands all three lists to
  \<open>collection.add\<close>. The failure that follows is the store's, answered as 500.
\<close>

theorem metadatas_length_not_checked:
  "the (eb_metadatas short_metadatas) \<noteq> [] \<and>
   length (the (eb_metadatas short_metadatas)) \<noteq> length (eb_ids short_metadatas) \<and>
   create_embeddings_batch (mem_client no_results) short_metadatas ''default'' resolved =
     (Inl (HTTPException 500 (Str (Fault ''unequal lengths''))),
      resolved\<lparr>calls := calls resolved @
        [(Add default_coll [''a'', ''b''] None [''x'', ''y''] [[(''k'', JStr ''v'')]], Raised)]\<rparr>)"
  by (simp add: batch_defs run_defs short_metadatas_def)

subsection \<open>Queries\<close>

lemma entry_absent: "absent field \<Longrightarrow> entry field i = Inr None"
  by (cases field rule: absent.cases) (simp_all add: entry_def row0_def)

lemma entry_present:
  "\<not> absent field \<Longrightarrow> i < length (first_row field) \<Longrightarrow>
     entry field i = Inr (Some (first_row field ! i))"
  by (cases field rule: absent.cases) (auto simp: entry_def row0_def neq_Nil_conv)
lemma entry_covered:
  "covers ids0 field \<Longrightarrow> i < length ids0 \<Longrightarrow>
     entry field i = Inr (if absent field then None else Some (first_row field ! i))"
  by (auto simp: covers_def entry_absent entry_present)

lemma make_item_parallel:
  assumes "qr_ids results = ids0 # rest" and "index_parallel results" and "i < length ids0"
  shows "make_item results i = Inr (reshaped results i)"
proof -
  from assms(1,2)
  have "covers ids0 (qr_documents results)" and "covers ids0 (qr_metadatas results)"
    and "covers ids0 (qr_distances results)"
    by (simp_all add: index_parallel_def)
  from this [THEN entry_covered, OF assms(3)] assms(1)
  show ?thesis by (simp add: make_item_def reshaped_def)
qed

lemma for_range_all:
  "\<forall>i \<in> set js. make_item results i = Inr (f i) \<Longrightarrow>
     for_range results js acc = Inr (acc @ map f js)"
  by (induction js arbitrary: acc) simp_all

lemma process_results_parallel:
  assumes "index_parallel results"
  shows "process_results results =
           Inr (map (reshaped results) [0..<length (hd (qr_ids results))])"
proof -
  from assms obtain ids0 rest where ids: "qr_ids results = ids0 # rest"
    by (auto simp: index_parallel_def split: list.splits)
  have "\<forall>i \<in> set [0..<length ids0]. make_item results i = Inr (reshaped results i)"
    using make_item_parallel [OF ids assms] by simp
  then have "for_range results [0..<length ids0] [] = Inr ([] @ map (reshaped results) [0..<length ids0])"
    by (rule for_range_all)
  with ids show ?thesis by (simp add: process_results_def)
qed

text \<open>
  C5. When the collection resolves and the store answers the query with an index-parallel
  response, \<open>query_similar\<close> returns one item per id of \<open>ids[0]\<close>, in that order, and a
  count equal to the number of items. The text of item \<open>i\<close> is entry \<open>i\<close> of the
  documents, or \<open>None\<close> when the documents are absent; its metadata is entry \<open>i\<close> of the
  metadatas, or the empty mapping when they are absent; its distance is entry \<open>i\<close> of the
  distances, or \<open>None\<close> when they are absent.
\<close>

theorem query_reshapes:
  assumes "get_collection cl name None s = (Inr c, s1)"
    and "query_store cl c query s1 = (Inr results, s2)"
    and "index_parallel results"
  shows "\<exists>items.
      query_similar cl query name s = (Inr (Query_success items (length items)), s2) \<and>
      map r_id items = hd (qr_ids results) \<and>
      (\<forall>i < length items.
         r_text (items ! i) =
           (if absent (qr_documents results) then None
            else first_row (qr_documents results) ! i) \<and>
         r_metadata (items ! i) =
           (if absent (qr_metadatas results) then Some []
            else first_row (qr_metadatas results) ! i) \<and>
         r_distance (items ! i) =
           (if absent (qr_distances results) then None
            else Some (first_row (qr_distances results) ! i)))"
proof -
  let ?n = "length (hd (qr_ids results))"
  let ?items = "map (reshaped results) [0..<?n]"
  have run: "query_similar cl query name s = (Inr (Query_success ?items (length ?items)), s2)"
    using assms(1,2) process_results_parallel [OF assms(3)]
    by (simp add: query_similar_def query_similar_body_def except_Exception_def)
  have ids: "map r_id ?items = hd (qr_ids results)"
    by (simp add: reshaped_def o_def map_nth)
  have fields: "\<forall>i < length ?items.
         r_text (?items ! i) =
           (if absent (qr_documents results) then None
            else first_row (qr_documents results) ! i) \<and>
         r_metadata (?items ! i) =
           (if absent (qr_metadatas results) then Some []
            else first_row (qr_metadatas results) ! i) \<and>
         r_distance (?items ! i) =
           (if absent (qr_distances results) then None
            else Some (first_row (qr_distances results) ! i))"
    by (simp add: reshaped_def)
  from run ids fields show ?thesis by blast
qed

theorem query_reshapes_witness:
  "index_parallel two_results \<and>
   (\<exists>items s2.
      query_similar (mem_client two_results) (QueryItem_defaults ''q'') ''default'' resolved =
        (Inr (Query_success items 2), s2) \<and>
      map r_id items = [''a'', ''b''] \<and>
      r_text (items ! 1) = Some ''y'' \<and>
      r_metadata (items ! 1) = Some [] \<and>
      r_distance (items ! 1) = Some 1)"
proof -
  let ?s2 = "resolved\<lparr>calls := calls resolved @
      [(Query default_coll None (Some [''q'']) 5 None, Returned)]\<rparr>"
  have hit: "get_collection (mem_client two_results) ''default'' None resolved =
      (Inr default_coll, resolved)"
    by (simp add: get_collection_def resolved_def)
  have asked: "query_store (mem_client two_results) default_coll (QueryItem_defaults ''q'')
      resolved = (Inr two_results, ?s2)"
    by (simp add: query_store_def query_params_def QueryItem_defaults_def issue_def
        mem_client_def resolved_def)
  have par: "index_parallel two_results"
    by (simp add: index_parallel_def covers_def two_results_def)
  from query_reshapes [OF hit asked par]
  obtain items where
    run: "query_similar (mem_client two_results) (QueryItem_defaults ''q'') ''default'' resolved =
        (Inr (Query_success items (length items)), ?s2)"
    and ids: "map r_id items = hd (qr_ids two_results)"
    and fields: "\<forall>i < length items.
         r_text (items ! i) =
           (if absent (qr_documents two_results) then None
            else first_row (qr_documents two_results) ! i) \<and>
         r_metadata (items ! i) =
           (if absent (qr_metadatas two_results) then Some []
            else first_row (qr_metadatas two_results) ! i) \<and>
         r_distance (items ! i) =
           (if absent (qr_distances two_results) then None
            else Some (first_row (qr_distances two_results) ! i))"
    by blast
  from ids have ids': "map r_id items = [''a'', ''b'']" by (simp add: two_results_def)
  then have len: "length items = 2" by (metis length_map length_Cons list.size(3) numeral_2_eq_2)
  with fields have "r_text (items ! 1) = Some ''y'' \<and> r_metadata (items ! 1) = Some [] \<and>
      r_distance (items ! 1) = Some 1"
    by (simp add: two_results_def)
  with run ids' len par show ?thesis by auto
qed

lemma resolve_resolved:
  "get_collection cl ''default'' None resolved = (Inr default_coll, resolved)"
  by (simp add: get_collection_def resolved_def)

lemma resolve_stocked:
  "get_collection cl ''default'' None stocked = (Inr default_coll, stocked)"
  by (simp add: get_collection_def stocked_def resolved_def)

text \<open>
  C6 as stated fails. A request whose vector is there but empty is not sent to the store
  as a vector query with that vector: the store gets a text query with \<open>query_text\<close>.
  And a request with a vector reaches the store as no query at all when the collection does
  not resolve: on a store that is down the handler stops after the failed open and create.
\<close>

theorem query_dispatch_counterexample:
  "qi_embedding empty_vector_query = Some [] \<and>
   calls (snd (query_similar (mem_client no_results) empty_vector_query ''default'' resolved)) =
     calls resolved @ [(Query default_coll None (Some [''q'']) 5 None, Returned)] \<and>
   truthy (qi_embedding vector_query) \<and>
   query_similar down_client vector_query ''default'' started =
     (Inl (HTTPException 500 (Str (Fault ''unavailable''))), unresolved) \<and>
   calls unresolved =
     [(Get_collection ''default'' (Some DefaultEmbeddingFunction), Raised),
      (Create_collection ''default'' (Some DefaultEmbeddingFunction), Raised)]"
  by (simp add: query_defs get_collection_def issue_def ef_or_def Let_def mem_client_def resolved_def
      empty_vector_query_def QueryItem_defaults_def no_results_def process_results_def
      down_client_def started_def unresolved_def vector_query_def)

text \<open>
  C6, amended. When the collection does not resolve, \<open>query_similar\<close> answers 500 and asks
  the store nothing more. When it resolves, the handler runs exactly one operation of the
  store on the state resolution left: \<open>collection.query\<close>, by the request's single vector
  and with no query text when the vector is there and not empty, by \<open>query_text\<close>
  otherwise (vector absent or empty); with the request's \<open>n_results\<close> (5 by default); with
  the request's \<open>where\<close> as it is when it is not empty and no filter otherwise. The store
  afterwards is the store that operation leaves, the trace gains that one call, and the
  answer is made from what the operation returned or raised.
\<close>

theorem query_dispatch:
  "(case get_collection cl name None s of
      (Inl e, s1) \<Rightarrow> query_similar cl query name s = (Inl (HTTPException 500 (Str e)), s1)
    | (Inr c, s1) \<Rightarrow>
        (let query_embeddings =
               (if truthy (qi_embedding query) then Some [the (qi_embedding query)] else None);
             query_texts =
               (if truthy (qi_embedding query) then None else Some [qi_query_text query]);
             n_results = qi_n_results query;
             filter_param = (if truthy (qi_where query) then qi_where query else None)
         in case collection_query cl c query_embeddings query_texts n_results filter_param
                   (store s1) of
              (r, st) \<Rightarrow>
                snd (query_similar cl query name s) =
                  s1\<lparr>store := st,
                     calls := calls s1 @
                       [(Query c query_embeddings query_texts n_results filter_param,
                         if isl r then Raised else Returned)]\<rparr> \<and>
                fst (query_similar cl query name s) =
                  (case r of
                     Inl e \<Rightarrow> Inl (HTTPException 500 (Str e))
                   | Inr results \<Rightarrow>
                       (case process_results results of
                          Inl e \<Rightarrow> Inl (HTTPException 500 (Str e))
                        | Inr items \<Rightarrow> Inr (Query_success items (length items)))))) \<and>
   qi_n_results (QueryItem_defaults query_text) = 5"
  by (auto simp: query_defs issue_def Let_def QueryItem_defaults_def
      split: prod.splits sum.splits)

theorem query_dispatch_witness:
  "truthy (qi_embedding vector_query) \<and> truthy (qi_where vector_query) \<and>
   snd (query_similar (mem_client no_results) vector_query ''default'' resolved) =
     resolved\<lparr>calls := calls resolved @
       [(Query default_coll (Some [[1, 2]]) None 3 (Some [(''k'', JStr ''v'')]), Returned)]\<rparr> \<and>
   fst (query_similar (mem_client no_results) vector_query ''default'' resolved) =
     Inr (Query_success [] 0)"
proof -
  have sel: "truthy (qi_embedding vector_query)" "truthy (qi_where vector_query)"
    by (simp_all add: vector_query_def)
  from query_dispatch [where cl = "mem_client no_results" and name = "''default''"
      and s = resolved and query = vector_query, THEN conjunct1,
      unfolded resolve_resolved prod.case sum.case]
  have "snd (query_similar (mem_client no_results) vector_query ''default'' resolved) =
     resolved\<lparr>calls := calls resolved @
       [(Query default_coll (Some [[1, 2]]) None 3 (Some [(''k'', JStr ''v'')]), Returned)]\<rparr> \<and>
   fst (query_similar (mem_client no_results) vector_query ''default'' resolved) =
     Inr (Query_success [] 0)"
    by (simp add: Let_def vector_query_def mem_client_def no_results_def process_results_def)
  with sel show ?thesis by blast
qed

text \<open>
  C10. An empty vector counts as no vector. \<open>create_embedding\<close> and \<open>query_similar\<close>
  behave on a request with the empty list as vector exactly as on the same request with
  no vector. With the empty vector, when the collection resolves, the one operation of the
  store that \<open>create_embedding\<close> runs is \<open>collection.add\<close> with no embeddings, and the one
  that \<open>query_similar\<close> runs is \<open>collection.query\<close> by \<open>query_text\<close> with no query
  embeddings: store, trace and answer are those of that operation. When the collection does
  not resolve, both answer 500.
\<close>

theorem empty_vector_as_absent:
  "create_embedding cl (item\<lparr>ei_embedding := Some []\<rparr>) name s =
     create_embedding cl (item\<lparr>ei_embedding := None\<rparr>) name s \<and>
   query_similar cl (query\<lparr>qi_embedding := Some []\<rparr>) name s =
     query_similar cl (query\<lparr>qi_embedding := None\<rparr>) name s \<and>
   (case get_collection cl name None s of
      (Inl e, s1) \<Rightarrow>
        create_embedding cl (item\<lparr>ei_embedding := Some []\<rparr>) name s =
          (Inl (HTTPException 500 (Str e)), s1) \<and>
        query_similar cl (query\<lparr>qi_embedding := Some []\<rparr>) name s =
          (Inl (HTTPException 500 (Str e)), s1)
    | (Inr c, s1) \<Rightarrow>
        (case collection_add cl c [ei_id item] None [ei_text item] [ei_metadata item]
                (store s1) of
           (r, st) \<Rightarrow>
             create_embedding cl (item\<lparr>ei_embedding := Some []\<rparr>) name s =
               (case r of
                  Inl e \<Rightarrow> Inl (HTTPException 500 (Str e))
                | Inr u \<Rightarrow> Inr (Success (Embedded name)),
                s1\<lparr>store := st,
                   calls := calls s1 @
                     [(Add c [ei_id item] None [ei_text item] [ei_metadata item],
                       if isl r then Raised else Returned)]\<rparr>)) \<and>
        (let filter_param = (if truthy (qi_where query) then qi_where query else None)
         in case collection_query cl c None (Some [qi_query_text query]) (qi_n_results query)
                   filter_param (store s1) of
              (r, st) \<Rightarrow>
                snd (query_similar cl (query\<lparr>qi_embedding := Some []\<rparr>) name s) =
                  s1\<lparr>store := st,
                     calls := calls s1 @
                       [(Query c None (Some [qi_query_text query]) (qi_n_results query)
                           filter_param,
                         if isl r then Raised else Returned)]\<rparr> \<and>
                fst (query_similar cl (query\<lparr>qi_embedding := Some []\<rparr>) name s) =
                  (case r of
                     Inl e \<Rightarrow> Inl (HTTPException 500 (Str e))
                   | Inr results \<Rightarrow>
                       (case process_results results of
                          Inl e \<Rightarrow> Inl (HTTPException 500 (Str e))
                        | Inr items \<Rightarrow> Inr (Query_success items (length items))))))"
  by (auto simp: embed_defs query_defs issue_def Let_def split: prod.splits sum.splits)

theorem empty_vector_as_absent_witness:
  "ei_embedding record_a = Some [] \<and>
   create_embedding (mem_client no_results) record_a ''default'' resolved =
     (Inr (Success (Embedded ''default'')),
      resolved\<lparr>store := [(''default'', [(''a'', ''x'', [(''k'', JStr ''v'')])])],
         calls := calls resolved @
           [(Add default_coll [''a''] None [''x''] [[(''k'', JStr ''v'')]], Returned)]\<rparr>) \<and>
   qi_embedding empty_vector_query = Some [] \<and>
   snd (query_similar (mem_client no_results) empty_vector_query ''default'' resolved) =
     resolved\<lparr>calls := calls resolved @
       [(Query default_coll None (Some [''q'']) 5 None, Returned)]\<rparr> \<and>
   fst (query_similar (mem_client no_results) empty_vector_query ''default'' resolved) =
     Inr (Query_success [] 0)"
proof -
  have a: "record_a\<lparr>ei_embedding := Some []\<rparr> = record_a"
    and q: "empty_vector_query\<lparr>qi_embedding := Some []\<rparr> = empty_vector_query"
    by (simp_all add: record_a_def empty_vector_query_def)
  have given: "ei_embedding record_a = Some []" "qi_embedding empty_vector_query = Some []"
    by (simp_all add: record_a_def empty_vector_query_def)
  note t = empty_vector_as_absent [where cl = "mem_client no_results" and item = record_a
      and name = "''default''" and s = resolved and query = empty_vector_query,
      THEN conjunct2, THEN conjunct2, unfolded a q resolve_resolved prod.case sum.case]
  from t have added:
    "create_embedding (mem_client no_results) record_a ''default'' resolved =
     (Inr (Success (Embedded ''default'')),
      resolved\<lparr>store := [(''default'', [(''a'', ''x'', [(''k'', JStr ''v'')])])],
         calls := calls resolved @
           [(Add default_coll [''a''] None [''x''] [[(''k'', JStr ''v'')]], Returned)]\<rparr>)"
    by (simp add: Let_def record_a_def mem_client_def mem_add_def resolved_def default_coll_def)
  from t have asked:
    "snd (query_similar (mem_client no_results) empty_vector_query ''default'' resolved) =
     resolved\<lparr>calls := calls resolved @
       [(Query default_coll None (Some [''q'']) 5 None, Returned)]\<rparr> \<and>
   fst (query_similar (mem_client no_results) empty_vector_query ''default'' resolved) =
     Inr (Query_success [] 0)"
    by (simp add: Let_def empty_vector_query_def QueryItem_defaults_def mem_client_def
        no_results_def process_results_def)
  from given added asked show ?thesis by blast
qed

subsection \<open>Deleting records\<close>

text \<open>
  C7 as stated fails. With no ids and a \<open>where\<close> that is there but empty, nothing is
  deleted by predicate: the handler fails and leaves the server as it was. And with a
  non-empty id list nothing is deleted when the collection does not resolve: on a store
  that is down the handler stops after the failed open and create.
\<close>

theorem delete_by_predicate_counterexample:
  "\<not> truthy (di_ids empty_where) \<and> di_where empty_where = Some [] \<and>
   delete_embeddings (mem_client no_results) empty_where ''default'' resolved =
     (Inl (HTTPException 500 (Str (HTTPException 400 Ids_or_where_required))), resolved) \<and>
   truthy (di_ids ids_and_where) \<and>
   delete_embeddings down_client ids_and_where ''default'' started =
     (Inl (HTTPException 500 (Str (Fault ''unavailable''))), unresolved) \<and>
   calls unresolved =
     [(Get_collection ''default'' (Some DefaultEmbeddingFunction), Raised),
      (Create_collection ''default'' (Some DefaultEmbeddingFunction), Raised)]"
  by (simp add: delete_defs get_collection_def issue_def ef_or_def Let_def resolved_def
      empty_where_def ids_and_where_def down_client_def started_def unresolved_def)

text \<open>
  C7, amended. When the collection does not resolve, \<open>delete_embeddings\<close> answers 500 and
  asks the store nothing more. When it resolves and the request has a non-empty id list,
  the handler runs exactly one operation of the store, \<open>collection.delete\<close> by these ids
  and no predicate, whether or not a predicate was given; when that returns, the answer
  reports the length of the id list. When it resolves, the ids are absent or empty and the
  predicate is there and not empty, the one operation is \<open>collection.delete\<close> by that
  predicate; when that returns, the answer is a success without a count. In both cases the
  store afterwards is the store the operation leaves, and an exception of the operation
  is answered as 500.
\<close>

theorem delete_selection:
  "case get_collection cl name None s of
     (Inl e, s1) \<Rightarrow> delete_embeddings cl d name s = (Inl (HTTPException 500 (Str e)), s1)
   | (Inr c, s1) \<Rightarrow>
       (truthy (di_ids d) \<longrightarrow>
          (case collection_delete cl c (di_ids d) None (store s1) of
             (r, st) \<Rightarrow>
               delete_embeddings cl d name s =
                 (case r of
                    Inl e \<Rightarrow> Inl (HTTPException 500 (Str e))
                  | Inr u \<Rightarrow> Inr (Success (Deleted_ids name (length (the (di_ids d))))),
                  s1\<lparr>store := st,
                     calls := calls s1 @
                       [(Delete c (di_ids d) None, if isl r then Raised else Returned)]\<rparr>))) \<and>
       (\<not> truthy (di_ids d) \<and> truthy (di_where d) \<longrightarrow>
          (case collection_delete cl c None (di_where d) (store s1) of
             (r, st) \<Rightarrow>
               delete_embeddings cl d name s =
                 (case r of
                    Inl e \<Rightarrow> Inl (HTTPException 500 (Str e))
                  | Inr u \<Rightarrow> Inr (Success (Deleted_where name)),
                  s1\<lparr>store := st,
                     calls := calls s1 @
                       [(Delete c None (di_where d), if isl r then Raised else Returned)]\<rparr>)))"
  by (auto simp: delete_defs issue_def split: prod.splits sum.splits)

theorem delete_selection_witness:
  "truthy (di_ids ids_and_where) \<and> truthy (di_where ids_and_where) \<and>
   delete_embeddings (mem_client no_results) ids_and_where ''default'' stocked =
     (Inr (Success (Deleted_ids ''default'' 2)),
      stocked\<lparr>store := [(''default'', [(''c'', ''z'', [])])],
         calls := calls stocked @
           [(Delete default_coll (Some [''a'', ''b'']) None, Returned)]\<rparr>) \<and>
   \<not> truthy (di_ids where_only) \<and> truthy (di_where where_only) \<and>
   delete_embeddings (mem_client no_results) where_only ''default'' stocked =
     (Inr (Success (Deleted_where ''default'')),
      stocked\<lparr>calls := calls stocked @
           [(Delete default_coll None (Some [(''k'', JStr ''v'')]), Returned)]\<rparr>)"
proof -
  have sel: "truthy (di_ids ids_and_where)" "truthy (di_where ids_and_where)"
    "\<not> truthy (di_ids where_only)" "truthy (di_where where_only)"
    by (simp_all add: ids_and_where_def where_only_def)
  note by_ids = delete_selection [where cl = "mem_client no_results" and name = "''default''"
      and s = stocked and d = ids_and_where, unfolded resolve_stocked prod.case sum.case,
      THEN conjunct1, rule_format, OF sel(1)]
  note by_where = delete_selection [where cl = "mem_client no_results" and name = "''default''"
      and s = stocked and d = where_only, unfolded resolve_stocked prod.case sum.case,
      THEN conjunct2, rule_format, OF conjI, OF sel(3) sel(4)]
  from by_ids have a:
    "delete_embeddings (mem_client no_results) ids_and_where ''default'' stocked =
     (Inr (Success (Deleted_ids ''default'' 2)),
      stocked\<lparr>store := [(''default'', [(''c'', ''z'', [])])],
         calls := calls stocked @
           [(Delete default_coll (Some [''a'', ''b'']) None, Returned)]\<rparr>)"
    by (simp add: ids_and_where_def mem_client_def mem_delete_def stocked_def default_coll_def)
  from by_where have b:
    "delete_embeddings (mem_client no_results) where_only ''default'' stocked =
     (Inr (Success (Deleted_where ''default'')),
      stocked\<lparr>calls := calls stocked @
           [(Delete default_coll None (Some [(''k'', JStr ''v'')]), Returned)]\<rparr>)"
    by (simp add: where_only_def mem_client_def mem_delete_def)
  from sel a b show ?thesis by blast
qed

end
